theory Spec2Isabelle
  imports Complex_Main "HOL-Library.Sublist"
begin

section \<open>Time ranges of the clipper: parsing, buffering, merging, filtering\<close>

text \<open>
  The development follows \<^verbatim>\<open>hms_to_sec\<close> and the time range section of
  \<^verbatim>\<open>VideoEditorApp.process_with_llm\<close> (from the call of \<^verbatim>\<open>re.findall\<close> to the call of
  \<^verbatim>\<open>clip_videos\<close>) in \<^verbatim>\<open>4o-1.py\<close>.

  Conventions of the embedding:
  \<^item> a Python \<^verbatim>\<open>str\<close> is a \<^typ>\<open>string\<close>; its characters are the code points below 256;
  \<^item> a Python \<^verbatim>\<open>float\<close> is the rational number it denotes: arithmetic is exact, rounding,
    infinities and NaN are not represented;
  \<^item> a two element list \<^verbatim>\<open>[start, end]\<close> is a pair, a list of them a list of pairs;
  \<^item> the settings \<^verbatim>\<open>app_config["buffer_time"]\<close> and \<^verbatim>\<open>app_config["min_duration"]\<close> are
    arguments.
\<close>

type_synonym seconds = rat
type_synonym range = "seconds \<times> seconds"

subsection \<open>Character classes of the pattern\<close>

text \<open>\<^verbatim>\<open>\d\<close>: below code point 256 the decimal digits are \<^verbatim>\<open>0\<close> to \<^verbatim>\<open>9\<close>.\<close>

definition is_digit :: "char \<Rightarrow> bool" where
  "is_digit c = (let n = (of_char c :: nat) in 48 \<le> n \<and> n \<le> 57)"

text \<open>
  \<^verbatim>\<open>\s\<close>: below code point 256 the white space characters of a \<^verbatim>\<open>str\<close> pattern are
  tab, line feed, vertical tab, form feed, carriage return, the separators 28 to 31,
  space, next line (133) and no-break space (160).
\<close>

definition is_space :: "char \<Rightarrow> bool" where
  "is_space c = (let n = (of_char c :: nat) in
     (9 \<le> n \<and> n \<le> 13) \<or> (28 \<le> n \<and> n \<le> 32) \<or> n = 133 \<or> n = 160)"

subsection \<open>The builtin \<^verbatim>\<open>float\<close> on strings\<close>

definition digit_value :: "char \<Rightarrow> nat" where
  "digit_value c = of_char c - 48"

definition decimal :: "string \<Rightarrow> nat" where
  "decimal ds = foldl (\<lambda>n c. 10 * n + digit_value c) 0 ds"

text \<open>
  \<^verbatim>\<open>float(s)\<close>: a non-empty string of digits is read in base ten. On every other string
  the builtin is the parameter \<open>fl\<close>, where \<open>None\<close> stands for \<^verbatim>\<open>ValueError\<close>; nothing
  is assumed about it.
\<close>

definition py_float :: "(string \<Rightarrow> rat option) \<Rightarrow> string \<Rightarrow> rat option" where
  "py_float fl s = (if s \<noteq> [] \<and> list_all is_digit s then Some (of_nat (decimal s)) else fl s)"

subsection \<open>\<^verbatim>\<open>str.split\<close> with a one character separator\<close>

fun split_on :: "char \<Rightarrow> string \<Rightarrow> string list" where
  "split_on sep [] = [[]]"
| "split_on sep (c # cs) =
     (if c = sep then [] # split_on sep cs
      else (case split_on sep cs of
              w # ws \<Rightarrow> (c # w) # ws
            | [] \<Rightarrow> [[c]]))"

subsection \<open>\<^verbatim>\<open>hms_to_sec\<close>\<close>

text \<open>
  What \<^verbatim>\<open>hms_to_sec\<close> logs in its \<^verbatim>\<open>except ValueError\<close> branch: the warning that names the
  string it failed on (the traceback printed after it is part of the same entry).
\<close>

datatype log_line = Conversion_error string

text \<open>The first statement of the \<^verbatim>\<open>try\<close> block: \<^verbatim>\<open>if '.' not in hms: hms += '.000'\<close>.\<close>

definition add_millis :: "string \<Rightarrow> string" where
  "add_millis hms = (if CHR ''.'' \<notin> set hms then hms @ ''.000'' else hms)"

text \<open>
  The rest of the \<^verbatim>\<open>try\<close> block; \<open>None\<close> is a \<^verbatim>\<open>ValueError\<close>, raised by one of the two
  unpacking assignments or by \<^verbatim>\<open>float\<close>.
\<close>

definition hms_to_sec_try :: "(string \<Rightarrow> rat option) \<Rightarrow> string \<Rightarrow> seconds option" where
  "hms_to_sec_try fl hms =
     (case split_on CHR '':'' hms of
        [h, m, s_m] \<Rightarrow>
          (case split_on CHR ''.'' s_m of
             [s, mmm] \<Rightarrow>
               (case py_float fl h of None \<Rightarrow> None | Some fh \<Rightarrow>
                (case py_float fl m of None \<Rightarrow> None | Some fm \<Rightarrow>
                 (case py_float fl s of None \<Rightarrow> None | Some fs \<Rightarrow>
                  (case py_float fl mmm of None \<Rightarrow> None | Some fmmm \<Rightarrow>
                     Some (fh * 3600 + fm * 60 + fs + fmmm / 1000)))))
           | _ \<Rightarrow> None)
      | _ \<Rightarrow> None)"

text \<open>The function with what it logs: the value returned and the entries logged.\<close>

definition hms_to_sec_io :: "(string \<Rightarrow> rat option) \<Rightarrow> string \<Rightarrow> seconds \<times> log_line list" where
  "hms_to_sec_io fl hms0 =
     (let hms = add_millis hms0 in
      case hms_to_sec_try fl hms of
        Some v \<Rightarrow> (v, [])
      | None \<Rightarrow> (0, [Conversion_error hms]))"

definition hms_to_sec :: "(string \<Rightarrow> rat option) \<Rightarrow> string \<Rightarrow> seconds" where
  "hms_to_sec fl hms = fst (hms_to_sec_io fl hms)"

subsection \<open>The pattern of \<^verbatim>\<open>re.findall\<close>\<close>

text \<open>A sequence of character classes matched at the head of a string.\<close>

fun match_classes :: "(char \<Rightarrow> bool) list \<Rightarrow> string \<Rightarrow> bool" where
  "match_classes [] s = True"
| "match_classes (p # ps) [] = False"
| "match_classes (p # ps) (c # cs) = (p c \<and> match_classes ps cs)"

text \<open>\<^verbatim>\<open>\d{2}:\d{2}:\d{2}\.\d{3}\<close>\<close>

definition timestamp_pattern :: "(char \<Rightarrow> bool) list" where
  "timestamp_pattern =
     [is_digit, is_digit, (=) CHR '':'', is_digit, is_digit, (=) CHR '':'',
      is_digit, is_digit, (=) CHR ''.'', is_digit, is_digit, is_digit]"

definition match_timestamp :: "string \<Rightarrow> string option" where
  "match_timestamp s = (if match_classes timestamp_pattern s then Some (take 12 s) else None)"

text \<open>
  The whole pattern, \<^verbatim>\<open>(\d{2}:\d{2}:\d{2}\.\d{3})\s*-\s*(\d{2}:\d{2}:\d{2}\.\d{3})\<close>, matched at
  the head of a string: the two groups and the number of characters matched. A hyphen and
  a digit are not white space, so each \<^verbatim>\<open>\s*\<close> can only take all the white space there is.
\<close>

definition match_range :: "string \<Rightarrow> ((string \<times> string) \<times> nat) option" where
  "match_range s =
     (case match_timestamp s of
        None \<Rightarrow> None
      | Some g1 \<Rightarrow>
          (let r1 = drop 12 s;
               w1 = length (takeWhile is_space r1)
           in case drop w1 r1 of
                [] \<Rightarrow> None
              | c # r2 \<Rightarrow>
                  if c \<noteq> CHR ''-'' then None
                  else (let w2 = length (takeWhile is_space r2)
                        in case match_timestamp (drop w2 r2) of
                             None \<Rightarrow> None
                           | Some g2 \<Rightarrow> Some ((g1, g2), 12 + w1 + 1 + w2 + 12))))"

text \<open>
  \<^verbatim>\<open>re.findall\<close>: the matches from left to right, the search resuming where the previous
  match ended, or one character further where there is no match.
\<close>

fun findall :: "string \<Rightarrow> (string \<times> string) list" where
  "findall [] = []"
| "findall (c # cs) =
     (case match_range (c # cs) of
        Some (g, n) \<Rightarrow> g # findall (drop (n - 1) cs)
      | None \<Rightarrow> findall cs)"

subsection \<open>The stages of \<^verbatim>\<open>process_with_llm\<close>\<close>

text \<open>\<^verbatim>\<open>sorted(matches, key=lambda x: hms_to_sec(x[0]))\<close>; \<^verbatim>\<open>sorted\<close> is stable.\<close>

definition sort_matches ::
  "(string \<Rightarrow> rat option) \<Rightarrow> (string \<times> string) list \<Rightarrow> (string \<times> string) list" where
  "sort_matches fl matches = sort_key (\<lambda>x. hms_to_sec fl (fst x)) matches"

text \<open>The loop that fills \<^verbatim>\<open>buffered_ranges\<close>.\<close>

fun buffer_ranges ::
  "(string \<Rightarrow> rat option) \<Rightarrow> seconds \<Rightarrow> (string \<times> string) list \<Rightarrow> range list" where
  "buffer_ranges fl buffer_time [] = []"
| "buffer_ranges fl buffer_time ((start_str, end_str) # rest) =
     (let start_sec = max 0 (hms_to_sec fl start_str - buffer_time);
          end_sec = hms_to_sec fl end_str + buffer_time
      in if end_sec > start_sec
         then (start_sec, end_sec) # buffer_ranges fl buffer_time rest
         else buffer_ranges fl buffer_time rest)"

text \<open>
  The loop that fills \<^verbatim>\<open>merged_ranges\<close>, with the list built so far as an argument.
  \<^verbatim>\<open>merged_ranges[-1][1] = ...\<close> replaces the end of the last range.
\<close>

fun merge_loop :: "seconds \<Rightarrow> range list \<Rightarrow> range list \<Rightarrow> range list" where
  "merge_loop merge_gap merged_ranges [] = merged_ranges"
| "merge_loop merge_gap merged_ranges ((start, end) # rest) =
     (if merged_ranges = [] \<or> start > snd (last merged_ranges) + merge_gap
      then merge_loop merge_gap (merged_ranges @ [(start, end)]) rest
      else merge_loop merge_gap
             (merged_ranges[length merged_ranges - 1 :=
                (fst (last merged_ranges), max (snd (last merged_ranges)) end)])
             rest)"

definition merge_ranges :: "seconds \<Rightarrow> range list \<Rightarrow> range list" where
  "merge_ranges merge_gap buffered_ranges = merge_loop merge_gap [] buffered_ranges"

text \<open>The comprehension that builds \<^verbatim>\<open>final_clip_ranges\<close>.\<close>

definition filter_ranges :: "seconds \<Rightarrow> range list \<Rightarrow> range list" where
  "filter_ranges min_duration merged_ranges =
     filter (\<lambda>(start, end). end - start \<ge> min_duration) merged_ranges"

text \<open>
  From the buffered ranges on: \<^verbatim>\<open>sorted(buffered_ranges, key=lambda x: x[0])\<close>, the merge
  loop and the filter.
\<close>

definition sort_merge_filter :: "seconds \<Rightarrow> seconds \<Rightarrow> range list \<Rightarrow> range list" where
  "sort_merge_filter merge_gap min_duration buffered_ranges =
     filter_ranges min_duration (merge_ranges merge_gap (sort_key fst buffered_ranges))"

text \<open>From the matches to \<^verbatim>\<open>final_clip_ranges\<close>.\<close>

definition final_clip_ranges ::
  "(string \<Rightarrow> rat option) \<Rightarrow> seconds \<Rightarrow> seconds \<Rightarrow> seconds \<Rightarrow> (string \<times> string) list
     \<Rightarrow> range list" where
  "final_clip_ranges fl buffer_time merge_gap min_duration matches =
     sort_merge_filter merge_gap min_duration
       (buffer_ranges fl buffer_time (sort_matches fl matches))"

text \<open>\<^verbatim>\<open>merge_gap = 0.5\<close>\<close>

definition merge_gap_const :: seconds where
  "merge_gap_const = 1 / 2"

text \<open>
  How the section ends: with the warning that the reply holds no time range, with the
  warning that no range is left after merging and filtering, or with the call
  \<^verbatim>\<open>self.clip_videos(final_clip_ranges)\<close>.
\<close>

datatype outcome = No_valid_ranges | No_clips_left | Clip_videos "range list"

definition process_with_llm ::
  "(string \<Rightarrow> rat option) \<Rightarrow> seconds \<Rightarrow> seconds \<Rightarrow> string \<Rightarrow> outcome" where
  "process_with_llm fl buffer_time min_duration ai_reply =
     (let matches = findall ai_reply in
      if matches = [] then No_valid_ranges
      else (let final = final_clip_ranges fl buffer_time merge_gap_const min_duration matches
            in if final = [] then No_clips_left else Clip_videos final))"

subsection \<open>Notions used in the statements\<close>




text \<open>A non-empty string of decimal digits.\<close>

definition digits :: "string \<Rightarrow> bool" where
  "digits ds = (ds \<noteq> [] \<and> list_all is_digit ds)"

text \<open>
  What a string of the shape \<^verbatim>\<open>HH:MM:SS.mmm\<close> denotes when its fields are only read as
  numbers: hours times 3600 plus minutes times 60 plus seconds plus milliseconds over
  1000.
\<close>

definition timestamp_value :: "string \<Rightarrow> seconds" where
  "timestamp_value ts =
     of_nat (decimal (take 2 ts)) * 3600 + of_nat (decimal (take 2 (drop 3 ts))) * 60
       + of_nat (decimal (take 2 (drop 6 ts))) + of_nat (decimal (drop 9 ts)) / 1000"

section \<open>The merge loop\<close>













section \<open>The stages together\<close>





















section \<open>Buffering, negative settings and the ways the section ends\<close>

text \<open>
  Claim C3. On the reply \<^verbatim>\<open>00:00:03.000 - 00:00:08.000\<close>, new line,
  \<^verbatim>\<open>00:00:08.200 - 00:00:12.000\<close>, with a buffer of 0.5 seconds and a minimum duration of
  2 seconds (the merge gap of the code is 0.5 seconds), the two matches are buffered to
  \<open>(2.5, 8.5)\<close> and \<open>(7.7, 12.5)\<close>; the second starts before the first ends, the merge
  loop joins them, and the one range handed to \<^verbatim>\<open>clip_videos\<close> is \<open>(2.5, 12.5)\<close>.
\<close>

theorem scenario_merged_by_buffering:
  "findall ''00:00:03.000 - 00:00:08.000\<newline>00:00:08.200 - 00:00:12.000''
     = [(''00:00:03.000'', ''00:00:08.000''), (''00:00:08.200'', ''00:00:12.000'')]
   \<and> buffer_ranges fl (1 / 2)
        (sort_matches fl (findall ''00:00:03.000 - 00:00:08.000\<newline>00:00:08.200 - 00:00:12.000''))
     = [(5 / 2, 17 / 2), (77 / 10, 25 / 2)]
   \<and> (77 / 10 :: rat) < 17 / 2
   \<and> merge_ranges merge_gap_const (sort_key fst [(5 / 2, 17 / 2), (77 / 10, 25 / 2)])
     = [(5 / 2, 25 / 2)]
   \<and> process_with_llm fl (1 / 2) 2 ''00:00:03.000 - 00:00:08.000\<newline>00:00:08.200 - 00:00:12.000''
     = Clip_videos [(5 / 2, 25 / 2)]"
  by code_simp

theorem scenario_merged_by_buffering_witness:
  "process_with_llm (\<lambda>_. None) (1 / 2) 2 ''00:00:03.000 - 00:00:08.000\<newline>00:00:08.200 - 00:00:12.000''
     = Clip_videos [(5 / 2, 25 / 2)]"
  using scenario_merged_by_buffering [of "\<lambda>_. None"] by blast











section \<open>The conversion of time stamps\<close>

lemma split_on_not_Nil: "split_on sep s \<noteq> []"
  by (induction s) (auto split: list.splits)

lemma split_on_absent: "sep \<notin> set s \<Longrightarrow> split_on sep s = [s]"
  by (induction s) auto

lemma split_on_first: "sep \<notin> set h \<Longrightarrow> split_on sep (h @ sep # rest) = h # split_on sep rest"
  by (induction h) (auto split: list.splits simp: split_on_not_Nil)

lemma is_digit_not_sep: "is_digit c \<Longrightarrow> c \<noteq> CHR '':'' \<and> c \<noteq> CHR ''.''"
  by (auto simp: is_digit_def)

lemma digits_no_sep: "digits ds \<Longrightarrow> CHR '':'' \<notin> set ds \<and> CHR ''.'' \<notin> set ds"
  using is_digit_not_sep by (auto simp: digits_def list_all_iff)

lemma py_float_digits: "digits ds \<Longrightarrow> py_float fl ds = Some (of_nat (decimal ds))"
  by (simp add: py_float_def digits_def)

lemma hms_to_sec_try_fields:
  assumes "digits dh" "digits dm" "digits ds" "digits df"
  shows "hms_to_sec_try fl (dh @ CHR '':'' # dm @ CHR '':'' # ds @ CHR ''.'' # df) =
           Some (of_nat (decimal dh) * 3600 + of_nat (decimal dm) * 60 + of_nat (decimal ds)
                 + of_nat (decimal df) / 1000)"
proof -
  have c: "CHR '':'' \<notin> set (ds @ CHR ''.'' # df)"
    using assms digits_no_sep by auto
  have "split_on CHR '':'' (dh @ CHR '':'' # dm @ CHR '':'' # ds @ CHR ''.'' # df)
          = [dh, dm, ds @ CHR ''.'' # df]"
    using assms c digits_no_sep by (simp add: split_on_first split_on_absent)
  moreover have "split_on CHR ''.'' (ds @ CHR ''.'' # df) = [ds, df]"
    using assms digits_no_sep by (simp add: split_on_first split_on_absent)
  ultimately show ?thesis
    using assms by (simp add: hms_to_sec_try_def py_float_digits)
qed

lemma add_millis_with_fraction:
  "add_millis (dh @ CHR '':'' # dm @ CHR '':'' # ds @ CHR ''.'' # df)
     = dh @ CHR '':'' # dm @ CHR '':'' # ds @ CHR ''.'' # df"
  by (simp add: add_millis_def)

lemma add_millis_without_fraction:
  assumes "digits dh" "digits dm" "digits ds"
  shows "add_millis (dh @ CHR '':'' # dm @ CHR '':'' # ds)
     = dh @ CHR '':'' # dm @ CHR '':'' # ds @ CHR ''.'' # ''000''"
  using assms digits_no_sep by (auto simp: add_millis_def)

lemma digits_000: "digits ''000''" "decimal ''000'' = 0"
  by (simp_all add: digits_def is_digit_def decimal_def digit_value_def)

lemma hms_to_sec_io_with_fraction:
  assumes "digits dh" "digits dm" "digits ds" "digits df"
  shows "hms_to_sec_io fl (dh @ CHR '':'' # dm @ CHR '':'' # ds @ CHR ''.'' # df) =
           (of_nat (decimal dh) * 3600 + of_nat (decimal dm) * 60 + of_nat (decimal ds)
                 + of_nat (decimal df) / 1000, [])"
  unfolding hms_to_sec_io_def add_millis_with_fraction Let_def
  by (simp add: hms_to_sec_try_fields [OF assms])

lemma hms_to_sec_io_without_fraction:
  assumes "digits dh" "digits dm" "digits ds"
  shows "hms_to_sec_io fl (dh @ CHR '':'' # dm @ CHR '':'' # ds) =
           (of_nat (decimal dh) * 3600 + of_nat (decimal dm) * 60 + of_nat (decimal ds), [])"
  unfolding hms_to_sec_io_def add_millis_without_fraction [OF assms] Let_def
  by (simp add: hms_to_sec_try_fields [OF assms digits_000(1)] digits_000(2))

lemma hms_to_sec_io_failure:
  "hms_to_sec_try fl (add_millis hms) = None \<Longrightarrow>
     hms_to_sec_io fl hms = (0, [Conversion_error (add_millis hms)])"
  by (simp add: hms_to_sec_io_def Let_def)

lemma try_wrong_field_count:
  "length (split_on CHR '':'' x) \<noteq> 3 \<Longrightarrow> hms_to_sec_try fl x = None"
  by (auto simp: hms_to_sec_try_def split: list.splits)

lemma try_wrong_seconds_part:
  "split_on CHR '':'' x = [h, m, s_m] \<Longrightarrow> length (split_on CHR ''.'' s_m) \<noteq> 2
     \<Longrightarrow> hms_to_sec_try fl x = None"
  by (auto simp: hms_to_sec_try_def split: list.splits)

lemma try_not_numeric:
  "split_on CHR '':'' x = [h, m, s_m] \<Longrightarrow> split_on CHR ''.'' s_m = [s, mmm]
     \<Longrightarrow> py_float fl h = None \<or> py_float fl m = None \<or> py_float fl s = None
           \<or> py_float fl mmm = None
     \<Longrightarrow> hms_to_sec_try fl x = None"
  by (auto simp: hms_to_sec_try_def split: option.splits)

text \<open>
  Claim C8. The conversion never raises. When the string (after \<^verbatim>\<open>.000\<close> is appended to
  one without a dot) does not split into three fields at the colons, or its third field
  does not split into two at the dot, or \<^verbatim>\<open>float\<close> rejects one of the four components,
  it returns 0 and logs the failure, once. On hours, minutes, seconds and
  milliseconds that are strings of digits it returns
  \<open>hours * 3600 + minutes * 60 + seconds + milliseconds / 1000\<close> and logs nothing; when
  the fraction is absent the milliseconds count as 0.
\<close>

theorem hms_to_sec_conversion:
  "(length (split_on CHR '':'' (add_millis hms)) \<noteq> 3
      \<longrightarrow> hms_to_sec_io fl hms = (0, [Conversion_error (add_millis hms)]))
   \<and> (split_on CHR '':'' (add_millis hms) = [h, m, s_m] \<and> length (split_on CHR ''.'' s_m) \<noteq> 2
      \<longrightarrow> hms_to_sec_io fl hms = (0, [Conversion_error (add_millis hms)]))
   \<and> (split_on CHR '':'' (add_millis hms) = [h, m, s_m] \<and> split_on CHR ''.'' s_m = [s, mmm]
        \<and> (py_float fl h = None \<or> py_float fl m = None \<or> py_float fl s = None
             \<or> py_float fl mmm = None)
      \<longrightarrow> hms_to_sec_io fl hms = (0, [Conversion_error (add_millis hms)]))
   \<and> (digits dh \<and> digits dm \<and> digits ds \<and> digits df
      \<longrightarrow> hms_to_sec_io fl (dh @ '':'' @ dm @ '':'' @ ds @ ''.'' @ df)
            = (of_nat (decimal dh) * 3600 + of_nat (decimal dm) * 60 + of_nat (decimal ds)
                 + of_nat (decimal df) / 1000, []))
   \<and> (digits dh \<and> digits dm \<and> digits ds
      \<longrightarrow> hms_to_sec_io fl (dh @ '':'' @ dm @ '':'' @ ds)
            = (of_nat (decimal dh) * 3600 + of_nat (decimal dm) * 60 + of_nat (decimal ds), []))"
proof (intro conjI impI)
  assume "length (split_on CHR '':'' (add_millis hms)) \<noteq> 3"
  then show "hms_to_sec_io fl hms = (0, [Conversion_error (add_millis hms)])"
    by (intro hms_to_sec_io_failure try_wrong_field_count)
next
  assume "split_on CHR '':'' (add_millis hms) = [h, m, s_m] \<and> length (split_on CHR ''.'' s_m) \<noteq> 2"
  then show "hms_to_sec_io fl hms = (0, [Conversion_error (add_millis hms)])"
    using hms_to_sec_io_failure try_wrong_seconds_part by blast
next
  assume "split_on CHR '':'' (add_millis hms) = [h, m, s_m] \<and> split_on CHR ''.'' s_m = [s, mmm]
        \<and> (py_float fl h = None \<or> py_float fl m = None \<or> py_float fl s = None
             \<or> py_float fl mmm = None)"
  then show "hms_to_sec_io fl hms = (0, [Conversion_error (add_millis hms)])"
    using hms_to_sec_io_failure try_not_numeric by blast
next
  assume "digits dh \<and> digits dm \<and> digits ds \<and> digits df"
  then show "hms_to_sec_io fl (dh @ '':'' @ dm @ '':'' @ ds @ ''.'' @ df)
            = (of_nat (decimal dh) * 3600 + of_nat (decimal dm) * 60 + of_nat (decimal ds)
                 + of_nat (decimal df) / 1000, [])"
    using hms_to_sec_io_with_fraction [of dh dm ds df fl] by simp
next
  assume "digits dh \<and> digits dm \<and> digits ds"
  then show "hms_to_sec_io fl (dh @ '':'' @ dm @ '':'' @ ds)
            = (of_nat (decimal dh) * 3600 + of_nat (decimal dm) * 60 + of_nat (decimal ds), [])"
    using hms_to_sec_io_without_fraction [of dh dm ds fl] by simp
qed

theorem hms_to_sec_conversion_witness:
  "hms_to_sec_io (\<lambda>_. None) ''00:99'' = (0, [Conversion_error ''00:99.000''])
   \<and> hms_to_sec_io (\<lambda>_. None) ''1:2:3.4.5'' = (0, [Conversion_error ''1:2:3.4.5''])
   \<and> hms_to_sec_io (\<lambda>_. None) ''aa:00:00.000'' = (0, [Conversion_error ''aa:00:00.000''])
   \<and> hms_to_sec_io (\<lambda>_. None) ''01:02:03.500'' = (7447 / 2, [])
   \<and> hms_to_sec_io (\<lambda>_. None) ''01:02:03'' = (3723, [])"
proof -
  let ?fl = "\<lambda>_ :: string. None :: rat option"
  have a1: "add_millis ''00:99'' = ''00:99.000''" by code_simp
  have h1: "length (split_on CHR '':'' (add_millis ''00:99'')) \<noteq> 3" by code_simp
  from h1 hms_to_sec_conversion [where hms = "''00:99''" and fl = ?fl]
  have "hms_to_sec_io ?fl ''00:99'' = (0, [Conversion_error (add_millis ''00:99'')])"
    by blast
  then have 1: "hms_to_sec_io ?fl ''00:99'' = (0, [Conversion_error ''00:99.000''])"
    by (simp only: a1)
  have a2: "add_millis ''1:2:3.4.5'' = ''1:2:3.4.5''" by code_simp
  have h2: "split_on CHR '':'' (add_millis ''1:2:3.4.5'') = [''1'', ''2'', ''3.4.5'']
      \<and> length (split_on CHR ''.'' ''3.4.5'') \<noteq> 2"
    by code_simp
  from h2 hms_to_sec_conversion [where hms = "''1:2:3.4.5''" and fl = ?fl and h = "''1''"
      and m = "''2''" and s_m = "''3.4.5''"]
  have "hms_to_sec_io ?fl ''1:2:3.4.5'' = (0, [Conversion_error (add_millis ''1:2:3.4.5'')])"
    by blast
  then have 2: "hms_to_sec_io ?fl ''1:2:3.4.5'' = (0, [Conversion_error ''1:2:3.4.5''])"
    by (simp only: a2)
  have a3: "add_millis ''aa:00:00.000'' = ''aa:00:00.000''" by code_simp
  have h3: "split_on CHR '':'' (add_millis ''aa:00:00.000'') = [''aa'', ''00'', ''00.000'']
      \<and> split_on CHR ''.'' ''00.000'' = [''00'', ''000'']
      \<and> (py_float ?fl ''aa'' = None \<or> py_float ?fl ''00'' = None \<or> py_float ?fl ''00'' = None
            \<or> py_float ?fl ''000'' = None)"
    by code_simp
  from h3 hms_to_sec_conversion [where hms = "''aa:00:00.000''" and fl = ?fl and h = "''aa''"
      and m = "''00''" and s_m = "''00.000''" and s = "''00''" and mmm = "''000''"]
  have "hms_to_sec_io ?fl ''aa:00:00.000'' = (0, [Conversion_error (add_millis ''aa:00:00.000'')])"
    by blast
  then have 3: "hms_to_sec_io ?fl ''aa:00:00.000'' = (0, [Conversion_error ''aa:00:00.000''])"
    by (simp only: a3)
  have d: "digits ''01'' \<and> digits ''02'' \<and> digits ''03'' \<and> digits ''500''"
    by code_simp
  have a4: "''01'' @ '':'' @ ''02'' @ '':'' @ ''03'' @ ''.'' @ ''500'' = ''01:02:03.500''"
    by simp
  have v4: "(of_nat (decimal ''01'') * 3600 + of_nat (decimal ''02'') * 60 + of_nat (decimal ''03'')
      + of_nat (decimal ''500'') / 1000 :: rat) = 7447 / 2"
    by code_simp
  from d hms_to_sec_conversion [where fl = ?fl and dh = "''01''" and dm = "''02''" and ds = "''03''"
      and df = "''500''"]
  have "hms_to_sec_io ?fl (''01'' @ '':'' @ ''02'' @ '':'' @ ''03'' @ ''.'' @ ''500'')
      = (of_nat (decimal ''01'') * 3600 + of_nat (decimal ''02'') * 60 + of_nat (decimal ''03'')
      + of_nat (decimal ''500'') / 1000, [])"
    by blast
  then have 4: "hms_to_sec_io ?fl ''01:02:03.500'' = (7447 / 2, [])"
    by (simp only: a4 v4)
  have a5: "''01'' @ '':'' @ ''02'' @ '':'' @ ''03'' = ''01:02:03''"
    by simp
  have v5: "(of_nat (decimal ''01'') * 3600 + of_nat (decimal ''02'') * 60 + of_nat (decimal ''03'')
      :: rat) = 3723"
    by code_simp
  from d hms_to_sec_conversion [where fl = ?fl and dh = "''01''" and dm = "''02''" and ds = "''03''"]
  have "hms_to_sec_io ?fl (''01'' @ '':'' @ ''02'' @ '':'' @ ''03'')
      = (of_nat (decimal ''01'') * 3600 + of_nat (decimal ''02'') * 60 + of_nat (decimal ''03''), [])"
    by blast
  then have 5: "hms_to_sec_io ?fl ''01:02:03'' = (3723, [])"
    by (simp only: a5 v5)
  from 1 2 3 4 5 show ?thesis by blast
qed

lemma match_classes_Cons:
  "match_classes (p # ps) s = (\<exists>c cs. s = c # cs \<and> p c \<and> match_classes ps cs)"
  by (cases s) auto

lemma match_timestamp_shape:
  assumes "match_timestamp s = Some ts"
  shows "\<exists>h1 h2 m1 m2 s1 s2 f1 f2 f3.
           ts = [h1, h2, CHR '':'', m1, m2, CHR '':'', s1, s2, CHR ''.'', f1, f2, f3]
           \<and> digits [h1, h2] \<and> digits [m1, m2] \<and> digits [s1, s2] \<and> digits [f1, f2, f3]"
proof -
  from assms have m: "match_classes timestamp_pattern s" and ts: "ts = take 12 s"
    by (auto simp: match_timestamp_def split: if_splits)
  from m obtain h1 h2 m1 m2 s1 s2 f1 f2 f3 rest where
    s: "s = h1 # h2 # CHR '':'' # m1 # m2 # CHR '':'' # s1 # s2 # CHR ''.'' # f1 # f2 # f3 # rest"
    and "is_digit h1" "is_digit h2" "is_digit m1" "is_digit m2" "is_digit s1" "is_digit s2"
      "is_digit f1" "is_digit f2" "is_digit f3"
    unfolding timestamp_pattern_def match_classes_Cons by auto
  then show ?thesis using ts by (auto simp: digits_def)
qed

lemma hms_to_sec_io_matched:
  assumes "match_timestamp s = Some ts"
  shows "hms_to_sec_io fl ts = (timestamp_value ts, [])"
proof -
  from match_timestamp_shape [OF assms] obtain h1 h2 m1 m2 s1 s2 f1 f2 f3 where
    ts: "ts = [h1, h2, CHR '':'', m1, m2, CHR '':'', s1, s2, CHR ''.'', f1, f2, f3]"
    and d: "digits [h1, h2]" "digits [m1, m2]" "digits [s1, s2]" "digits [f1, f2, f3]"
    by blast
  have "hms_to_sec_io fl ([h1, h2] @ CHR '':'' # [m1, m2] @ CHR '':'' # [s1, s2] @ CHR ''.'' # [f1, f2, f3])
      = (of_nat (decimal [h1, h2]) * 3600 + of_nat (decimal [m1, m2]) * 60 + of_nat (decimal [s1, s2])
                 + of_nat (decimal [f1, f2, f3]) / 1000, [])"
    by (rule hms_to_sec_io_with_fraction [OF d])
  then show ?thesis unfolding ts by (simp add: timestamp_value_def)
qed

lemma match_range_groups:
  assumes "match_range s = Some ((a, b), n)"
  shows "(\<exists>s'. match_timestamp s' = Some a) \<and> (\<exists>s'. match_timestamp s' = Some b)"
  using assms
  by (auto simp: match_range_def Let_def split: option.splits list.splits if_splits)

lemma findall_groups:
  "(a, b) \<in> set (findall reply) \<Longrightarrow> \<exists>s n. match_range s = Some ((a, b), n)"
proof (induction reply rule: findall.induct)
  case 1
  then show ?case by simp
next
  case (2 c cs)
  show ?case
  proof (cases "match_range (c # cs)")
    case None
    with 2 show ?thesis by simp
  next
    case (Some r)
    obtain ga gb n where r: "r = ((ga, gb), n)" by (metis surj_pair)
    show ?thesis
    proof (cases "(a, b) = (ga, gb)")
      case True
      with Some r show ?thesis by blast
    next
      case False
      with "2.prems" Some r have "(a, b) \<in> set (findall (drop (n - 1) cs))" by auto
      with "2.IH"(2) [OF Some r [symmetric]] show ?thesis by blast
    qed
  qed
qed

text \<open>
  Claim C10. The fields of a matched time stamp are never checked against a range: for
  both groups of every match that \<^const>\<open>findall\<close> returns, and for every string the
  time stamp pattern matches, the conversion succeeds, logs nothing and returns the
  arithmetic value \<^const>\<open>timestamp_value\<close>. The pattern admits \<^verbatim>\<open>00:99:00.000\<close>, which
  converts to 5940 seconds, and \<^verbatim>\<open>00:00:99.999\<close>, which converts to 99.999 seconds.
\<close>

theorem matched_fields_not_validated:
  "((a, b) \<in> set (findall reply)
      \<longrightarrow> hms_to_sec_io fl a = (timestamp_value a, []) \<and> hms_to_sec_io fl b = (timestamp_value b, []))
   \<and> (match_timestamp s = Some ts \<longrightarrow> hms_to_sec_io fl ts = (timestamp_value ts, []))
   \<and> match_timestamp ''00:99:00.000'' = Some ''00:99:00.000''
   \<and> hms_to_sec_io fl ''00:99:00.000'' = (5940, [])
   \<and> findall ''00:99:00.000 - 00:00:99.999'' = [(''00:99:00.000'', ''00:00:99.999'')]
   \<and> hms_to_sec_io fl ''00:00:99.999'' = (99999 / 1000, [])"
proof (intro conjI impI)
  assume "(a, b) \<in> set (findall reply)"
  then obtain s n where "match_range s = Some ((a, b), n)"
    using findall_groups by blast
  then obtain sa sb where "match_timestamp sa = Some a" "match_timestamp sb = Some b"
    using match_range_groups by blast
  then show "hms_to_sec_io fl a = (timestamp_value a, [])" "hms_to_sec_io fl b = (timestamp_value b, [])"
    by (simp_all add: hms_to_sec_io_matched)
next
  assume "match_timestamp s = Some ts"
  then show "hms_to_sec_io fl ts = (timestamp_value ts, [])"
    by (rule hms_to_sec_io_matched)
next
  show "match_timestamp ''00:99:00.000'' = Some ''00:99:00.000''"
    by code_simp
  show "hms_to_sec_io fl ''00:99:00.000'' = (5940, [])"
    by code_simp
  show "findall ''00:99:00.000 - 00:00:99.999'' = [(''00:99:00.000'', ''00:00:99.999'')]"
    by code_simp
  show "hms_to_sec_io fl ''00:00:99.999'' = (99999 / 1000, [])"
    by code_simp
qed

theorem matched_fields_not_validated_witness:
  "findall ''keep 00:75:80.250 - 01:99:99.000 please'' = [(''00:75:80.250'', ''01:99:99.000'')]
   \<and> hms_to_sec_io (\<lambda>_. None) ''00:75:80.250'' = (18321 / 4, [])
   \<and> hms_to_sec_io (\<lambda>_. None) ''01:99:99.000'' = (9639, [])"
proof -
  let ?fl = "\<lambda>_ :: string. None :: rat option"
  have f: "findall ''keep 00:75:80.250 - 01:99:99.000 please'' = [(''00:75:80.250'', ''01:99:99.000'')]"
    by code_simp
  then have i: "(''00:75:80.250'', ''01:99:99.000'') \<in> set (findall ''keep 00:75:80.250 - 01:99:99.000 please'')"
    by (simp only: list.set insertI1)
  have v: "timestamp_value ''00:75:80.250'' = 18321 / 4" "timestamp_value ''01:99:99.000'' = 9639"
    by code_simp+
  from i matched_fields_not_validated [where a = "''00:75:80.250''" and b = "''01:99:99.000''"
      and reply = "''keep 00:75:80.250 - 01:99:99.000 please''" and fl = ?fl]
  have "hms_to_sec_io ?fl ''00:75:80.250'' = (timestamp_value ''00:75:80.250'', [])
      \<and> hms_to_sec_io ?fl ''01:99:99.000'' = (timestamp_value ''01:99:99.000'', [])"
    by blast
  then have "hms_to_sec_io ?fl ''00:75:80.250'' = (18321 / 4, [])
      \<and> hms_to_sec_io ?fl ''01:99:99.000'' = (9639, [])"
    by (simp only: v)
  with f show ?thesis by blast
qed

section \<open>Running the stages on their own output\<close>












end
